theory Spec2Isabelle
  imports Main
begin

section \<open>The SAM application wizard (src/lambda/wizards/samInitWizard.ts)\<close>

subsection \<open>Values\<close>

text \<open>
  \<open>Runtime\<close> and \<open>SamLambdaTemplate\<close> are TypeScript string types.  A field declared
  \<open>private runtime?: Runtime\<close> holds either \<open>undefined\<close> (\<open>None\<close>) or a string.
  \<open>vscode.Uri\<close> is an object, modelled by the path it was built from.
\<close>

type_synonym Runtime = string
type_synonym SamLambdaTemplate = string

datatype Uri = UriFile string

text \<open>
  JavaScript truthiness of a value of type \<open>string | undefined\<close>, as tested by
  \<open>!this.runtime\<close> and \<open>this.runtime ? \<dots> : \<dots>\<close>: \<open>undefined\<close> and the empty string are
  falsy, every other string is truthy.  An object (a \<open>Uri\<close>) is always truthy, so a
  value of type \<open>Uri | undefined\<close> is truthy exactly when it is defined.
\<close>

fun truthy :: "string option \<Rightarrow> bool" where
  "truthy None = False"
| "truthy (Some s) = (s \<noteq> [])"

fun truthy_obj :: "'a option \<Rightarrow> bool" where
  "truthy_obj None = False"
| "truthy_obj (Some x) = True"

subsection \<open>The wizard's fields and its response\<close>

text \<open>The private fields of class \<open>CreateNewSamAppWizard\<close> (the response in progress).\<close>

record CreateNewSamAppWizard =
  runtime :: "Runtime option"
  template :: "SamLambdaTemplate option"
  region :: "string option"
  registryName :: "string option"
  schemaName :: "string option"
  location :: "Uri option"
  name :: "string option"

text \<open>
  Interface \<open>CreateNewSamAppWizardResponse\<close>.  The interface declares all seven fields
  as required; \<open>getResult\<close> fills \<open>region\<close>, \<open>registryName\<close> and \<open>schemaName\<close> with
  \<open>this.region!\<close> and so on, and the non-null assertion \<open>!\<close> is erased at run time, so
  these three hold whatever the field holds, \<open>undefined\<close> included.
\<close>

record CreateNewSamAppWizardResponse =
  resp_runtime :: Runtime
  resp_template :: SamLambdaTemplate
  resp_region :: "string option"
  resp_registryName :: "string option"
  resp_schemaName :: "string option"
  resp_location :: Uri
  resp_name :: string

text \<open>A freshly constructed wizard: every field is \<open>undefined\<close>.\<close>

definition newWizard :: CreateNewSamAppWizard where
  "newWizard = \<lparr>runtime = None, template = None, region = None, registryName = None,
     schemaName = None, location = None, name = None\<rparr>"

text \<open>
  \<open>getResult\<close> (lines 365-379): \<open>undefined\<close> when one of the four tested fields is falsy,
  otherwise the object built from the seven fields.
\<close>

definition getResult :: "CreateNewSamAppWizard \<Rightarrow> CreateNewSamAppWizardResponse option" where
  "getResult this =
     (if \<not> truthy (runtime this) \<or> \<not> truthy (template this) \<or> \<not> truthy_obj (location this)
         \<or> \<not> truthy (name this)
      then None
      else Some \<lparr>resp_runtime = the (runtime this),
                 resp_template = the (template this),
                 resp_region = region this,
                 resp_registryName = registryName this,
                 resp_schemaName = schemaName this,
                 resp_location = the (location this),
                 resp_name = the (name this)\<rparr>)"

subsection \<open>The steps\<close>

text \<open>
  A \<open>WizardStep\<close> value is a reference to one of the seven step functions.  A step
  returns the next step or \<open>undefined\<close> (\<open>None\<close>).
\<close>

datatype WizardStep =
  Step_RUNTIME | Step_TEMPLATE | Step_REGION | Step_REGISTRY | Step_SCHEMA | Step_LOCATION
  | Step_NAME

text \<open>
  Every step awaits one prompt of the context and stores what the prompt returned in
  its field.  The context is an interface whose answers come from the user, so the
  answer is an argument of the step.
\<close>

definition RUNTIME :: "Runtime option \<Rightarrow> CreateNewSamAppWizard
    \<Rightarrow> CreateNewSamAppWizard \<times> WizardStep option" where
  "RUNTIME answer this =
     (let this = this\<lparr>runtime := answer\<rparr>
      in (this, if truthy (runtime this) then Some Step_TEMPLATE else None))"

definition TEMPLATE :: "SamLambdaTemplate option \<Rightarrow> CreateNewSamAppWizard
    \<Rightarrow> CreateNewSamAppWizard \<times> WizardStep option" where
  "TEMPLATE answer this =
     (let this = this\<lparr>template := answer\<rparr>
      in if template this = Some ''eventBridge-schema-app'' then (this, Some Step_REGION)
         else (this, if truthy (template this) then Some Step_LOCATION else Some Step_RUNTIME))"

definition REGION :: "string option \<Rightarrow> CreateNewSamAppWizard
    \<Rightarrow> CreateNewSamAppWizard \<times> WizardStep option" where
  "REGION answer this =
     (let this = this\<lparr>region := answer\<rparr>
      in (this, if truthy (region this) then Some Step_REGISTRY else Some Step_TEMPLATE))"

definition REGISTRY :: "string option \<Rightarrow> CreateNewSamAppWizard
    \<Rightarrow> CreateNewSamAppWizard \<times> WizardStep option" where
  "REGISTRY answer this =
     (let this = this\<lparr>registryName := answer\<rparr>
      in (this, if truthy (registryName this) then Some Step_SCHEMA else Some Step_TEMPLATE))"

definition SCHEMA :: "string option \<Rightarrow> CreateNewSamAppWizard
    \<Rightarrow> CreateNewSamAppWizard \<times> WizardStep option" where
  "SCHEMA answer this =
     (let this = this\<lparr>schemaName := answer\<rparr>
      in (this, if truthy (schemaName this) then Some Step_LOCATION else Some Step_REGISTRY))"

definition LOCATION :: "Uri option \<Rightarrow> CreateNewSamAppWizard
    \<Rightarrow> CreateNewSamAppWizard \<times> WizardStep option" where
  "LOCATION answer this =
     (let this = this\<lparr>location := answer\<rparr>
      in if \<not> truthy_obj (location this)
         then (if template this = Some ''eventBridge-schema-app''
               then (this, Some Step_TEMPLATE)
               else (this, Some Step_TEMPLATE))
         else (this, Some Step_NAME))"

definition NAME :: "string option \<Rightarrow> CreateNewSamAppWizard
    \<Rightarrow> CreateNewSamAppWizard \<times> WizardStep option" where
  "NAME answer this =
     (let this = this\<lparr>name := answer\<rparr>
      in (this, if truthy (name this) then None else Some Step_LOCATION))"

text \<open>
  Calling a step through its reference.  The user's answer to a prompt is a string or
  \<open>undefined\<close>; the folder prompt turns the chosen path into a \<open>Uri\<close>.
\<close>

fun invokeStep :: "WizardStep \<Rightarrow> string option \<Rightarrow> CreateNewSamAppWizard
    \<Rightarrow> CreateNewSamAppWizard \<times> WizardStep option" where
  "invokeStep Step_RUNTIME a this = RUNTIME a this"
| "invokeStep Step_TEMPLATE a this = TEMPLATE a this"
| "invokeStep Step_REGION a this = REGION a this"
| "invokeStep Step_REGISTRY a this = REGISTRY a this"
| "invokeStep Step_SCHEMA a this = SCHEMA a this"
| "invokeStep Step_LOCATION a this = LOCATION (map_option UriFile a) this"
| "invokeStep Step_NAME a this = NAME a this"

subsection \<open>The wizard engine\<close>









text \<open>
  The field a step owns, read as the answer that was stored in it (a \<open>Uri\<close> by its
  path).
\<close>

fun stepField :: "WizardStep \<Rightarrow> CreateNewSamAppWizard \<Rightarrow> string option" where
  "stepField Step_RUNTIME w = runtime w"
| "stepField Step_TEMPLATE w = template w"
| "stepField Step_REGION w = region w"
| "stepField Step_REGISTRY w = registryName w"
| "stepField Step_SCHEMA w = schemaName w"
| "stepField Step_LOCATION w = map_option (\<lambda>u. case u of UriFile p \<Rightarrow> p) (location w)"
| "stepField Step_NAME w = name w"


section \<open>The picker helpers (shared/ui/picker)\<close>

subsection \<open>verifySinglePickerOutput\<close>

text \<open>
  The logger is made explicit: the function returns its value together with the
  warnings it logged.  The one warning it can log reports how many responses arrived.
\<close>

datatype LogEntry = WarnReceivedResponses nat

definition verifySinglePickerOutput :: "'a list option \<Rightarrow> 'a option \<times> LogEntry list" where
  "verifySinglePickerOutput choices =
     (case choices of
        None \<Rightarrow> (None, [])
      | Some cs \<Rightarrow>
          if length cs = 0 then (None, [])
          else if length cs > 1 then (None, [WarnReceivedResponses (length cs)])
          else (Some (cs ! 0), []))"

subsection \<open>The widget and the promise\<close>

text \<open>
  The quick pick of the editor, reduced to the state the helpers read and write.  The
  field \<open>pickerValue\<close> is the widget's \<open>value\<close>.
\<close>

datatype QuickInputButton = Back | HelpButton | OtherButton nat

record 'a QuickPick =
  title :: "string option"
  placeholder :: "string option"
  pickerValue :: string
  matchOnDescription :: bool
  matchOnDetail :: bool
  ignoreFocusOut :: bool
  items :: "'a list"
  buttons :: "QuickInputButton list"
  selectedItems :: "'a list"
  enabled :: bool
  busy :: bool
  visible :: bool

text \<open>\<open>vscode.window.createQuickPick()\<close>: an empty, enabled, hidden widget.\<close>

definition window_createQuickPick :: "'a QuickPick" where
  "window_createQuickPick =
     \<lparr>title = None, placeholder = None, pickerValue = [], matchOnDescription = False,
      matchOnDetail = False, ignoreFocusOut = False, items = [], buttons = [],
      selectedItems = [], enabled = True, busy = False, visible = False\<rparr>"

definition showQuickPick :: "'a QuickPick \<Rightarrow> 'a QuickPick" where
  "showQuickPick p = p\<lparr>visible := True\<rparr>"

definition hideQuickPick :: "'a QuickPick \<Rightarrow> 'a QuickPick" where
  "hideQuickPick p = p\<lparr>visible := False\<rparr>"

text \<open>
  The options \<open>createQuickPick\<close> reads (\<open>vscode.QuickPickOptions\<close> and
  \<open>AdditionalQuickPickOptions\<close>); every one of them may be left out.
\<close>

record QuickPickOptions =
  opt_title :: "string option"
  opt_placeHolder :: "string option"
  opt_value :: "string option"
  opt_matchOnDescription :: "bool option"
  opt_matchOnDetail :: "bool option"
  opt_ignoreFocusOut :: "bool option"

definition createQuickPick :: "QuickPickOptions option \<Rightarrow> 'a list option
    \<Rightarrow> QuickInputButton list option \<Rightarrow> 'a QuickPick" where
  "createQuickPick options its btns =
     (let picker = window_createQuickPick;
          picker = (case options of
              None \<Rightarrow> picker
            | Some opts \<Rightarrow>
                (let picker = picker\<lparr>title := opt_title opts\<rparr>;
                     picker = picker\<lparr>placeholder := opt_placeHolder opts\<rparr>;
                     picker = picker\<lparr>pickerValue :=
                        (if truthy (opt_value opts) then the (opt_value opts) else [])\<rparr>;
                     picker = (case opt_matchOnDescription opts of
                        None \<Rightarrow> picker | Some b \<Rightarrow> picker\<lparr>matchOnDescription := b\<rparr>);
                     picker = (case opt_matchOnDetail opts of
                        None \<Rightarrow> picker | Some b \<Rightarrow> picker\<lparr>matchOnDetail := b\<rparr>);
                     picker = (case opt_ignoreFocusOut opts of
                        None \<Rightarrow> picker | Some b \<Rightarrow> picker\<lparr>ignoreFocusOut := b\<rparr>)
                 in picker));
          picker = (case its of None \<Rightarrow> picker | Some xs \<Rightarrow> picker\<lparr>items := xs\<rparr>);
          picker = (case btns of None \<Rightarrow> picker | Some bs \<Rightarrow> picker\<lparr>buttons := bs\<rparr>)
      in picker)"

definition makeQuickPickBusy :: "'a QuickPick \<Rightarrow> 'a QuickPick" where
  "makeQuickPickBusy quickPick = (quickPick\<lparr>enabled := False\<rparr>)\<lparr>busy := True\<rparr>"

definition makeQuickPickNotBusy :: "'a QuickPick \<Rightarrow> 'a QuickPick" where
  "makeQuickPickNotBusy quickPick = (quickPick\<lparr>enabled := True\<rparr>)\<lparr>busy := False\<rparr>"

text \<open>
  A JavaScript promise settles once: \<open>resolve\<close> and \<open>reject\<close> act on a pending promise
  and are ignored afterwards.  A rejection reason is a string.
\<close>

type_synonym reason = string

datatype 'v Promise = Pending | Fulfilled 'v | Rejected reason

definition resolve :: "'v \<Rightarrow> 'v Promise \<Rightarrow> 'v Promise" where
  "resolve v p = (case p of Pending \<Rightarrow> Fulfilled v | _ \<Rightarrow> p)"

definition reject :: "reason \<Rightarrow> 'v Promise \<Rightarrow> 'v Promise" where
  "reject e p = (case p of Pending \<Rightarrow> Rejected e | _ \<Rightarrow> p)"

text \<open>
  An event subscription is a disposable; registering a listener appends it to the
  caller's \<open>disposables\<close> array.  A listener is called as long as its subscription has
  not been disposed.
\<close>

datatype EventKind = OnDidAccept | OnDidHide | OnDidTriggerButton

record Disposable =
  event :: EventKind
  disposed :: bool

definition subscribe :: "EventKind \<Rightarrow> Disposable list \<Rightarrow> Disposable list" where
  "subscribe k ds = ds @ [\<lparr>event = k, disposed = False\<rparr>]"

definition dispose :: "Disposable \<Rightarrow> Disposable" where
  "dispose d = d\<lparr>disposed := True\<rparr>"

definition listening :: "EventKind \<Rightarrow> Disposable list \<Rightarrow> bool" where
  "listening k ds = list_ex (\<lambda>d. event d = k \<and> \<not> disposed d) ds"

text \<open>
  What the environment does while a helper waits.  JavaScript runs one task at a
  time: a task is either a burst of widget events, fired one after the other before
  any awaiting code continues, or the settlement of the population task.  The user
  changing the selection is an event of the widget as well.
\<close>

datatype 'a PickerEvent = Accept | Hide | TriggerButton QuickInputButton
  | ChangeSelection "'a list"

datatype 'a Turn = WidgetEvents "'a PickerEvent list" | PopulatorResolved
  | PopulatorRejected reason

text \<open>
  A caller's \<open>onDidTriggerButton\<close> receives the button together with \<open>resolve\<close> and
  \<open>reject\<close>; for the session it is the calls it makes to these two, in order.
\<close>

datatype 'v SettleCall = CallResolve 'v | CallReject reason

type_synonym 'a ButtonHandler = "QuickInputButton \<Rightarrow> 'a list option SettleCall list"

fun settle :: "'v SettleCall \<Rightarrow> 'v Promise \<Rightarrow> 'v Promise" where
  "settle (CallResolve v) p = resolve v p"
| "settle (CallReject e) p = reject e p"

subsection \<open>promptUser\<close>

record 'a PromptSession =
  picker :: "'a QuickPick"
  disposables :: "Disposable list"
  response :: "'a list option Promise"

text \<open>
  The executor of the promise (lines 163-188): register the accept listener, the hide
  listener and, when a handler was passed, the button listener; then show the widget.
\<close>

definition promptUser_executor :: "'a ButtonHandler option \<Rightarrow> 'a PromptSession
    \<Rightarrow> 'a PromptSession" where
  "promptUser_executor onDidTriggerButton s =
     (let s = s\<lparr>disposables := subscribe OnDidAccept (disposables s)\<rparr>;
          s = s\<lparr>disposables := subscribe OnDidHide (disposables s)\<rparr>;
          s = (case onDidTriggerButton of
                 None \<Rightarrow> s
               | Some h \<Rightarrow> s\<lparr>disposables := subscribe OnDidTriggerButton (disposables s)\<rparr>)
      in s\<lparr>picker := showQuickPick (picker s)\<rparr>)"

text \<open>
  One event reaching the session.  The accept listener resolves with a copy of the
  current selection, the hide listener with \<open>undefined\<close>, the button listener hands
  over to the caller's handler.
\<close>

fun fire :: "'a ButtonHandler option \<Rightarrow> 'a PickerEvent \<Rightarrow> 'a PromptSession
    \<Rightarrow> 'a PromptSession" where
  "fire h Accept s =
     (if listening OnDidAccept (disposables s)
      then s\<lparr>response := resolve (Some (selectedItems (picker s))) (response s)\<rparr>
      else s)"
| "fire h Hide s =
     (let s = s\<lparr>picker := hideQuickPick (picker s)\<rparr>
      in if listening OnDidHide (disposables s)
         then s\<lparr>response := resolve None (response s)\<rparr>
         else s)"
| "fire h (TriggerButton btn) s =
     (case h of
        None \<Rightarrow> s
      | Some onDidTriggerButton \<Rightarrow>
          if listening OnDidTriggerButton (disposables s)
          then s\<lparr>response := fold settle (onDidTriggerButton btn) (response s)\<rparr>
          else s)"
| "fire h (ChangeSelection xs) s = s\<lparr>picker := (picker s)\<lparr>selectedItems := xs\<rparr>\<rparr>"

definition promptTurn :: "'a ButtonHandler option \<Rightarrow> 'a Turn \<Rightarrow> 'a PromptSession
    \<Rightarrow> 'a PromptSession" where
  "promptTurn h t s = (case t of WidgetEvents evs \<Rightarrow> fold (fire h) evs s | _ \<Rightarrow> s)"

text \<open>
  \<open>await\<close>: the function continues after the first task that leaves the promise
  settled; the tasks after it are handed back.
\<close>

fun awaitResponse :: "'a ButtonHandler option \<Rightarrow> 'a Turn list \<Rightarrow> 'a PromptSession
    \<Rightarrow> 'a PromptSession \<times> 'a Turn list" where
  "awaitResponse h [] s = (s, [])"
| "awaitResponse h (t # ts) s =
     (let s = promptTurn h t s
      in if response s \<noteq> Pending then (s, ts) else awaitResponse h ts s)"

text \<open>
  What a call of \<open>promptUser\<close> did: \<open>result\<close> is \<open>None\<close> while the promise is pending
  (the call has not returned), \<open>Some (Inr v)\<close> when it returned \<open>v\<close>, \<open>Some (Inl e)\<close>
  when it threw \<open>e\<close>; then the widget, the subscriptions, and the tasks not consumed.
\<close>

record 'a PromptReturn =
  result :: "(reason + 'a list option) option"
  pickerAfter :: "'a QuickPick"
  subscriptions :: "Disposable list"
  remaining :: "'a Turn list"

text \<open>
  \<open>promptUser\<close> (lines 146-195).  The \<open>finally\<close> block disposes every subscription and
  hides the widget, on return and on throw.
\<close>

definition promptUser :: "'a QuickPick \<Rightarrow> 'a ButtonHandler option \<Rightarrow> 'a Turn list
    \<Rightarrow> 'a PromptReturn" where
  "promptUser pk onDidTriggerButton turns =
     (let s = \<lparr>picker = pk, disposables = [], response = Pending\<rparr>;
          s = promptUser_executor onDidTriggerButton s;
          (s, rest) = awaitResponse onDidTriggerButton turns s
      in case response s of
           Pending \<Rightarrow>
             \<lparr>result = None, pickerAfter = picker s, subscriptions = disposables s,
              remaining = rest\<rparr>
         | Fulfilled v \<Rightarrow>
             \<lparr>result = Some (Inr v), pickerAfter = hideQuickPick (picker s),
              subscriptions = map dispose (disposables s), remaining = rest\<rparr>
         | Rejected e \<Rightarrow>
             \<lparr>result = Some (Inl e), pickerAfter = hideQuickPick (picker s),
              subscriptions = map dispose (disposables s), remaining = rest\<rparr>)"

text \<open>
  The prompt as the spec words it (4.2), to compare \<open>promptUser\<close> with: all events of
  the session in the order they fire, whatever task each belongs to, and the outcome
  that the first settling one of them decides.  An accept decides the selection as it
  is at that moment, a hide decides \<open>undefined\<close>, a button decides what the first call
  of its handler says, and a change of the selection or a button whose handler calls
  neither \<open>resolve\<close> nor \<open>reject\<close> decides nothing.
\<close>

fun turnEvents :: "'a Turn \<Rightarrow> 'a PickerEvent list" where
  "turnEvents (WidgetEvents evs) = evs"
| "turnEvents PopulatorResolved = []"
| "turnEvents (PopulatorRejected e) = []"

definition sessionEvents :: "'a Turn list \<Rightarrow> 'a PickerEvent list" where
  "sessionEvents turns = concat (map turnEvents turns)"

fun callOutcome :: "'a list option SettleCall \<Rightarrow> reason + 'a list option" where
  "callOutcome (CallResolve v) = Inr v"
| "callOutcome (CallReject e) = Inl e"

fun firstOutcome :: "'a ButtonHandler option \<Rightarrow> 'a list \<Rightarrow> 'a PickerEvent list
    \<Rightarrow> (reason + 'a list option) option" where
  "firstOutcome h sel [] = None"
| "firstOutcome h sel (Accept # evs) = Some (Inr (Some sel))"
| "firstOutcome h sel (Hide # evs) = Some (Inr None)"
| "firstOutcome h sel (ChangeSelection xs # evs) = firstOutcome h xs evs"
| "firstOutcome h sel (TriggerButton btn # evs) =
     (case h of
        None \<Rightarrow> firstOutcome h sel evs
      | Some onDidTriggerButton \<Rightarrow>
          (case onDidTriggerButton btn of
             [] \<Rightarrow> firstOutcome h sel evs
           | c # cs \<Rightarrow> Some (callOutcome c)))"

text \<open>An event that settles nothing, and the selection after a run of events.\<close>

fun quietEvent :: "'a ButtonHandler option \<Rightarrow> 'a PickerEvent \<Rightarrow> bool" where
  "quietEvent h Accept = False"
| "quietEvent h Hide = False"
| "quietEvent h (ChangeSelection xs) = True"
| "quietEvent h (TriggerButton btn) =
     (case h of None \<Rightarrow> True | Some onDidTriggerButton \<Rightarrow> onDidTriggerButton btn = [])"

fun currentSelection :: "'a list \<Rightarrow> 'a PickerEvent list \<Rightarrow> 'a list" where
  "currentSelection sel [] = sel"
| "currentSelection sel (ChangeSelection xs # evs) = currentSelection xs evs"
| "currentSelection sel (e # evs) = currentSelection sel evs"

text \<open>The value a promise gives the awaiting call.\<close>

fun promiseOutcome :: "'v Promise \<Rightarrow> (reason + 'v) option" where
  "promiseOutcome Pending = None"
| "promiseOutcome (Fulfilled v) = Some (Inr v)"
| "promiseOutcome (Rejected e) = Some (Inl e)"

subsection \<open>promptUserWithBusyMessage\<close>

text \<open>
  The promise of lines 235-248 is built from an \<open>async\<close> executor.  Its state is the
  widget, the outer \<open>disposables\<close>, the promise itself, whether the population task
  has settled, and the rejections of the executor's own promise, which the \<open>Promise\<close>
  constructor drops and nothing observes.
\<close>

record 'a BusySession =
  busyPicker :: "'a QuickPick"
  busyDisposables :: "Disposable list"
  didComplete :: "bool Promise"
  populatorSettled :: bool
  unhandledRejections :: "reason list"

text \<open>
  The executor up to \<open>await populator\<close>: register the hide listener, make the widget
  busy, show it.
\<close>

definition busy_executor :: "'a BusySession \<Rightarrow> 'a BusySession" where
  "busy_executor s =
     (let s = s\<lparr>busyDisposables := subscribe OnDidHide (busyDisposables s)\<rparr>;
          s = s\<lparr>busyPicker := makeQuickPickBusy (busyPicker s)\<rparr>
      in s\<lparr>busyPicker := showQuickPick (busyPicker s)\<rparr>)"

text \<open>Only the hide listener is registered during the busy phase.\<close>

fun busyFire :: "'a PickerEvent \<Rightarrow> 'a BusySession \<Rightarrow> 'a BusySession" where
  "busyFire Hide s =
     (let s = s\<lparr>busyPicker := hideQuickPick (busyPicker s)\<rparr>
      in if listening OnDidHide (busyDisposables s)
         then s\<lparr>didComplete := resolve False (didComplete s)\<rparr>
         else s)"
| "busyFire (ChangeSelection xs) s = s\<lparr>busyPicker := (busyPicker s)\<lparr>selectedItems := xs\<rparr>\<rparr>"
| "busyFire Accept s = s"
| "busyFire (TriggerButton btn) s = s"

text \<open>
  When the population task resolves, the executor continues after \<open>await populator\<close>
  and calls \<open>resolve(true)\<close>.  When it rejects, \<open>await populator\<close> throws inside the
  \<open>async\<close> executor: that rejects the executor's own promise and leaves the promise
  under construction untouched.
\<close>

fun busyTurn :: "'a Turn \<Rightarrow> 'a BusySession \<Rightarrow> 'a BusySession" where
  "busyTurn (WidgetEvents evs) s = fold busyFire evs s"
| "busyTurn PopulatorResolved s =
     (if populatorSettled s then s
      else s\<lparr>populatorSettled := True, didComplete := resolve True (didComplete s)\<rparr>)"
| "busyTurn (PopulatorRejected e) s =
     (if populatorSettled s then s
      else s\<lparr>populatorSettled := True, unhandledRejections := unhandledRejections s @ [e]\<rparr>)"

fun awaitDidComplete :: "'a Turn list \<Rightarrow> 'a BusySession \<Rightarrow> 'a BusySession \<times> 'a Turn list" where
  "awaitDidComplete [] s = (s, [])"
| "awaitDidComplete (t # ts) s =
     (let s = busyTurn t s
      in if didComplete s \<noteq> Pending then (s, ts) else awaitDidComplete ts s)"

text \<open>
  What a call of \<open>promptUserWithBusyMessage\<close> did: its result (as for \<open>promptUser\<close>),
  the widget, the outer subscriptions, the call of \<open>promptUser\<close> if the prompt phase
  was started, and the unobserved rejections.
\<close>

record 'a BusyReturn =
  busyResult :: "(reason + 'a list option) option"
  busyPickerAfter :: "'a QuickPick"
  busySubscriptions :: "Disposable list"
  promptPhase :: "'a PromptReturn option"
  unhandled :: "reason list"

text \<open>\<open>promptUserWithBusyMessage\<close> (lines 218-261).\<close>

definition promptUserWithBusyMessage :: "'a QuickPick \<Rightarrow> 'a ButtonHandler option
    \<Rightarrow> 'a Turn list \<Rightarrow> 'a BusyReturn" where
  "promptUserWithBusyMessage pk onDidTriggerButton turns =
     (let s = \<lparr>busyPicker = pk, busyDisposables = [], didComplete = Pending,
               populatorSettled = False, unhandledRejections = []\<rparr>;
          s = busy_executor s;
          (s, rest) = awaitDidComplete turns s
      in case didComplete s of
           Pending \<Rightarrow>
             \<lparr>busyResult = None, busyPickerAfter = busyPicker s,
              busySubscriptions = busyDisposables s, promptPhase = None,
              unhandled = unhandledRejections s\<rparr>
         | Fulfilled didFinish \<Rightarrow>
             if didFinish
             then (let r = promptUser (makeQuickPickNotBusy (busyPicker s)) onDidTriggerButton rest
                   in \<lparr>busyResult = result r, busyPickerAfter = pickerAfter r,
                       busySubscriptions = busyDisposables s, promptPhase = Some r,
                       unhandled = unhandledRejections s\<rparr>)
             else \<lparr>busyResult = Some (Inr None), busyPickerAfter = busyPicker s,
                   busySubscriptions = map dispose (busyDisposables s), promptPhase = None,
                   unhandled = unhandledRejections s\<rparr>
         | Rejected e \<Rightarrow>
             \<lparr>busyResult = Some (Inl e), busyPickerAfter = busyPicker s,
              busySubscriptions = busyDisposables s, promptPhase = None,
              unhandled = unhandledRejections s\<rparr>)"

text \<open>
  Predicates on sessions and tasks used to state the properties: the promise of the
  busy phase has not been resolved with \<open>true\<close>; a task fires a hide event; a task is
  the settlement of the population task.
\<close>

definition notCompleted :: "'a BusySession \<Rightarrow> bool" where
  "notCompleted s \<longleftrightarrow> didComplete s = Pending \<or> didComplete s = Fulfilled False"

fun hidesWidget :: "'a Turn \<Rightarrow> bool" where
  "hidesWidget (WidgetEvents evs) = (Hide \<in> set evs)"
| "hidesWidget PopulatorResolved = False"
| "hidesWidget (PopulatorRejected e) = False"

fun populatorTurn :: "'a Turn \<Rightarrow> bool" where
  "populatorTurn (WidgetEvents evs) = False"
| "populatorTurn PopulatorResolved = True"
| "populatorTurn (PopulatorRejected e) = True"

section \<open>The wizard's context (src/lambda/wizards/samInitWizard.ts)\<close>

text \<open>
  The fields of \<open>DefaultCreateNewSamAppWizardContext\<close> that the template prompt uses.
  An immutable.js \<open>Set\<close> is represented by the array its \<open>toArray()\<close> yields.  The
  initial sets come from lambda/models/samLambdaRuntime, which is not among the
  sources, so a context is taken as it is given.
\<close>

record DefaultCreateNewSamAppWizardContext =
  lambdaRuntimes :: "Runtime list"
  lambdaTemplates :: "SamLambdaTemplate list"
  lambdaTemplatesHelloWorld :: "SamLambdaTemplate list"

record QuickPickItem =
  label :: string
  alwaysShow :: bool
  description :: string

text \<open>
  The button handler every prompt of the context passes to \<open>promptUser\<close>: the back
  button resolves with \<open>undefined\<close>, the help button opens the documentation, any
  other button does nothing.
\<close>

definition contextButtonHandler :: "QuickPickItem ButtonHandler" where
  "contextButtonHandler button =
     (if button = Back then [CallResolve None]
      else if button = HelpButton then []
      else [])"

text \<open>
  What a call of \<open>promptUserForTemplate\<close> did: the context afterwards, the items the
  widget offered, the value returned (\<open>None\<close> while the prompt is pending) and the
  warnings logged.
\<close>

record TemplatePrompt =
  contextAfter :: DefaultCreateNewSamAppWizardContext
  offered :: "QuickPickItem list"
  answer :: "(reason + SamLambdaTemplate option) option"
  warnings :: "LogEntry list"

text \<open>\<open>promptUserForTemplate\<close> (lines 98-137).\<close>

definition promptUserForTemplate :: "DefaultCreateNewSamAppWizardContext \<Rightarrow> Runtime
    \<Rightarrow> SamLambdaTemplate option \<Rightarrow> QuickPickItem Turn list \<Rightarrow> TemplatePrompt" where
  "promptUserForTemplate this currRuntime currLanguage turns =
     (let this = (if currRuntime = ''python3.7'' \<or> currRuntime = ''python3.6''
                  then this\<lparr>lambdaTemplatesHelloWorld := lambdaTemplates this\<rparr>
                  else this);
          quickPick = createQuickPick
            (Some \<lparr>opt_title = Some ''Select a code binding language'',
                   opt_placeHolder = None,
                   opt_value = Some (if truthy currLanguage then the currLanguage else []),
                   opt_matchOnDescription = None,
                   opt_matchOnDetail = None,
                   opt_ignoreFocusOut = Some True\<rparr>)
            (Some (map (\<lambda>language.
                      \<lparr>label = language,
                       alwaysShow = (Some language = currLanguage),
                       description = (if Some language = currLanguage
                                      then ''Selected Previously'' else [])\<rparr>)
                    (lambdaTemplatesHelloWorld this)))
            (Some [HelpButton, Back]);
          r = promptUser quickPick (Some contextButtonHandler) turns
      in case result r of
           None \<Rightarrow>
             \<lparr>contextAfter = this, offered = items quickPick, answer = None, warnings = []\<rparr>
         | Some (Inl e) \<Rightarrow>
             \<lparr>contextAfter = this, offered = items quickPick, answer = Some (Inl e),
              warnings = []\<rparr>
         | Some (Inr choices) \<Rightarrow>
             (case verifySinglePickerOutput choices of
                (val, logged) \<Rightarrow>
                  \<lparr>contextAfter = this, offered = items quickPick,
                   answer = Some (Inr (case val of None \<Rightarrow> None | Some v \<Rightarrow> Some (label v))),
                   warnings = logged\<rparr>))"

text \<open>Any number of further calls on the same context, each with its own arguments.\<close>

fun templateCalls :: "DefaultCreateNewSamAppWizardContext
    \<Rightarrow> (Runtime \<times> SamLambdaTemplate option \<times> QuickPickItem Turn list) list
    \<Rightarrow> DefaultCreateNewSamAppWizardContext" where
  "templateCalls this [] = this"
| "templateCalls this ((currRuntime, currLanguage, turns) # calls) =
     templateCalls (contextAfter (promptUserForTemplate this currRuntime currLanguage turns)) calls"

text \<open>The context offers the full template set.\<close>

definition widened :: "DefaultCreateNewSamAppWizardContext \<Rightarrow> bool" where
  "widened this \<longleftrightarrow> lambdaTemplatesHelloWorld this = lambdaTemplates this"

section \<open>Properties\<close>

subsection \<open>getResult\<close>

lemma getResult_Some_iff:
  "(\<exists>r. getResult w = Some r) \<longleftrightarrow>
     truthy (runtime w) \<and> truthy (template w) \<and> truthy_obj (location w) \<and> truthy (name w)"
  by (simp add: getResult_def)

lemma truthy_Some: "truthy v \<Longrightarrow> v = Some (the v)"
  by (cases v) simp_all

lemma truthy_obj_Some: "truthy_obj v \<Longrightarrow> v = Some (the v)"
  by (cases v) simp_all

subsection \<open>The engine\<close>




subsection \<open>The steps of the wizard\<close>

lemmas step_defs = RUNTIME_def TEMPLATE_def REGION_def REGISTRY_def SCHEMA_def LOCATION_def
  NAME_def

lemma invokeStep_own_field:
  "invokeStep s a w = (w', r) \<Longrightarrow> stepField s w' = a"
  by (cases s)
     (auto simp add: step_defs Let_def option.map_comp comp_def option.map_ident
        split: if_splits)

lemma invokeStep_other_fields:
  "invokeStep s a w = (w', r) \<Longrightarrow> t \<noteq> s \<Longrightarrow> stepField t w' = stepField t w"
  by (cases s; cases t) (auto simp add: step_defs Let_def split: if_splits)

lemma invokeStep_field:
  "invokeStep s a w = (w', r) \<Longrightarrow>
     stepField s w' = a \<and> (\<forall>t. t \<noteq> s \<longrightarrow> stepField t w' = stepField t w)"
  using invokeStep_own_field invokeStep_other_fields by blast

lemma invokeStep_back_edges:
  "invokeStep later None w = (w1, Some earlier) \<Longrightarrow>
     (later, earlier) \<in> {(Step_TEMPLATE, Step_RUNTIME), (Step_REGION, Step_TEMPLATE),
        (Step_REGISTRY, Step_TEMPLATE), (Step_SCHEMA, Step_REGISTRY),
        (Step_LOCATION, Step_TEMPLATE), (Step_NAME, Step_LOCATION)}"
  by (cases later)
     (auto simp add: step_defs Let_def split: if_splits)

text \<open>
  C8.  Backward navigation: when the prompt of a later step returns \<open>undefined\<close> and
  the step redirects to an earlier step, re-running the earlier step with a choice
  \<open>v\<close> leaves exactly \<open>v\<close> in the field that step owns, whatever the field held
  before, and changes no other field.  The backward edges are the six listed.
\<close>

theorem back_navigation_overwrites:
  assumes "invokeStep later None w = (w1, Some earlier)"
    and "invokeStep earlier (Some v) w1 = (w2, r)"
  shows "(later, earlier) \<in> {(Step_TEMPLATE, Step_RUNTIME), (Step_REGION, Step_TEMPLATE),
            (Step_REGISTRY, Step_TEMPLATE), (Step_SCHEMA, Step_REGISTRY),
            (Step_LOCATION, Step_TEMPLATE), (Step_NAME, Step_LOCATION)}
       \<and> stepField earlier w2 = Some v
       \<and> (\<forall>t. t \<noteq> earlier \<longrightarrow> stepField t w2 = stepField t w1)"
  using assms invokeStep_back_edges [of later w w1 earlier]
    invokeStep_field [of earlier "Some v" w1 w2 r]
  by simp

theorem back_navigation_overwrites_witness:
  "invokeStep Step_TEMPLATE None (newWizard\<lparr>runtime := Some ''nodejs10.x''\<rparr>)
     = (newWizard\<lparr>runtime := Some ''nodejs10.x''\<rparr>, Some Step_RUNTIME)
   \<and> invokeStep Step_RUNTIME (Some ''python3.7'') (newWizard\<lparr>runtime := Some ''nodejs10.x''\<rparr>)
     = (newWizard\<lparr>runtime := Some ''python3.7''\<rparr>, Some Step_TEMPLATE)
   \<and> stepField Step_RUNTIME (newWizard\<lparr>runtime := Some ''python3.7''\<rparr>) = Some ''python3.7''
   \<and> stepField Step_TEMPLATE (newWizard\<lparr>runtime := Some ''python3.7''\<rparr>)
       = stepField Step_TEMPLATE (newWizard\<lparr>runtime := Some ''nodejs10.x''\<rparr>)
   \<and> stepField Step_NAME (newWizard\<lparr>runtime := Some ''python3.7''\<rparr>)
       = stepField Step_NAME (newWizard\<lparr>runtime := Some ''nodejs10.x''\<rparr>)"
proof -
  have a: "invokeStep Step_TEMPLATE None (newWizard\<lparr>runtime := Some ''nodejs10.x''\<rparr>)
     = (newWizard\<lparr>runtime := Some ''nodejs10.x''\<rparr>, Some Step_RUNTIME)"
    by (simp add: TEMPLATE_def newWizard_def)
  have b: "invokeStep Step_RUNTIME (Some ''python3.7'') (newWizard\<lparr>runtime := Some ''nodejs10.x''\<rparr>)
     = (newWizard\<lparr>runtime := Some ''python3.7''\<rparr>, Some Step_TEMPLATE)"
    by (simp add: RUNTIME_def newWizard_def)
  show ?thesis
    using a b back_navigation_overwrites [OF a b] by simp
qed

text \<open>
  C9.  \<open>getResult\<close> tests \<open>runtime\<close>, \<open>template\<close>, \<open>location\<close> and \<open>name\<close> and nothing
  else.  A run through \<open>RUNTIME\<close>, \<open>TEMPLATE\<close>, \<open>LOCATION\<close> and \<open>NAME\<close> with a template
  other than \<open>eventBridge-schema-app\<close> ends in a state for which \<open>getResult\<close> returns
  an object whose \<open>region\<close>, \<open>registryName\<close> and \<open>schemaName\<close> are \<open>undefined\<close>,
  although the interface declares them as required strings.
\<close>

theorem getResult_checks_four_fields:
  "((\<exists>res. getResult w = Some res) \<longleftrightarrow>
      truthy (runtime w) \<and> truthy (template w) \<and> truthy_obj (location w) \<and> truthy (name w))
   \<and> (r \<noteq> [] \<and> t \<noteq> [] \<and> t \<noteq> ''eventBridge-schema-app'' \<and> n \<noteq> [] \<longrightarrow>
       (\<exists>w1 w2 w3 w4.
          RUNTIME (Some r) newWizard = (w1, Some Step_TEMPLATE)
        \<and> TEMPLATE (Some t) w1 = (w2, Some Step_LOCATION)
        \<and> LOCATION (Some l) w2 = (w3, Some Step_NAME)
        \<and> NAME (Some n) w3 = (w4, None)
        \<and> template w4 \<noteq> Some ''eventBridge-schema-app''
        \<and> getResult w4 = Some \<lparr>resp_runtime = r, resp_template = t, resp_region = None,
             resp_registryName = None, resp_schemaName = None, resp_location = l,
             resp_name = n\<rparr>))"
  by (simp add: getResult_Some_iff RUNTIME_def TEMPLATE_def LOCATION_def NAME_def Let_def
        newWizard_def getResult_def)

theorem getResult_checks_four_fields_witness:
  "''nodejs10.x'' \<noteq> [] \<and> ''helloWorld'' \<noteq> [] \<and> ''helloWorld'' \<noteq> ''eventBridge-schema-app''
   \<and> ''app'' \<noteq> []
   \<and> (\<exists>w4. NAME (Some ''app'')
          \<lparr>runtime = Some ''nodejs10.x'', template = Some ''helloWorld'', region = None,
           registryName = None, schemaName = None, location = Some (UriFile ''/home/user/ws''),
           name = None\<rparr> = (w4, None)
        \<and> getResult w4 = Some \<lparr>resp_runtime = ''nodejs10.x'', resp_template = ''helloWorld'',
             resp_region = None, resp_registryName = None, resp_schemaName = None,
             resp_location = UriFile ''/home/user/ws'', resp_name = ''app''\<rparr>)"
  using getResult_checks_four_fields [of newWizard "''nodejs10.x''" "''helloWorld''" "''app''"
      "UriFile ''/home/user/ws''"]
  by (simp add: step_defs Let_def newWizard_def)

subsection \<open>Runs of the wizard\<close>















subsection \<open>verifySinglePickerOutput\<close>

text \<open>
  C7.  \<open>verifySinglePickerOutput\<close>: \<open>undefined\<close> or zero items give \<open>undefined\<close> and log
  nothing; exactly one item gives that item and logs nothing; two or more items log
  one warning and give \<open>undefined\<close>.
\<close>

theorem verifySinglePickerOutput_cases:
  "verifySinglePickerOutput None = (None, [])
   \<and> verifySinglePickerOutput (Some []) = (None, [])
   \<and> verifySinglePickerOutput (Some [x]) = (Some x, [])
   \<and> (2 \<le> length cs \<longrightarrow>
        verifySinglePickerOutput (Some cs) = (None, [WarnReceivedResponses (length cs)]))"
  by (simp add: verifySinglePickerOutput_def)

theorem verifySinglePickerOutput_cases_witness:
  "verifySinglePickerOutput (None :: string list option) = (None, [])
   \<and> verifySinglePickerOutput (Some ([] :: string list)) = (None, [])
   \<and> verifySinglePickerOutput (Some [''a'']) = (Some ''a'', [])
   \<and> 2 \<le> length [''a'', ''b'', ''c'']
   \<and> verifySinglePickerOutput (Some [''a'', ''b'', ''c''])
       = (None, [WarnReceivedResponses 3])"
  using verifySinglePickerOutput_cases [of "''a''" "[''a'', ''b'', ''c'']"]
  by (simp add: numeral_3_eq_3)

subsection \<open>promptUser\<close>

lemma resolve_settled [simp]: "p \<noteq> Pending \<Longrightarrow> resolve v p = p"
  by (cases p) (simp_all add: resolve_def)

lemma reject_settled [simp]: "p \<noteq> Pending \<Longrightarrow> reject e p = p"
  by (cases p) (simp_all add: reject_def)

lemma resolve_Pending [simp]: "resolve v Pending = Fulfilled v"
  by (simp add: resolve_def)

lemma reject_Pending [simp]: "reject e Pending = Rejected e"
  by (simp add: reject_def)

lemma settle_settled: "p \<noteq> Pending \<Longrightarrow> settle c p = p"
  by (cases c) simp_all

lemma fold_settle_settled: "p \<noteq> Pending \<Longrightarrow> fold settle cs p = p"
  by (induction cs arbitrary: p) (simp_all add: settle_settled)

lemma fire_disposables [simp]: "disposables (fire h e s) = disposables s"
  by (cases e) (simp_all add: Let_def split: option.splits)

lemma fire_settled: "response s \<noteq> Pending \<Longrightarrow> response (fire h e s) = response s"
  by (cases e) (simp_all add: Let_def fold_settle_settled split: option.splits)

lemma fold_fire_disposables [simp]: "disposables (fold (fire h) evs s) = disposables s"
  by (induction evs arbitrary: s) simp_all

lemma fold_fire_settled:
  "response s \<noteq> Pending \<Longrightarrow> response (fold (fire h) evs s) = response s"
  by (induction evs arbitrary: s) (simp_all add: fire_settled)

lemma promptTurn_disposables [simp]: "disposables (promptTurn h t s) = disposables s"
  by (cases t) (simp_all add: promptTurn_def)

lemma awaitResponse_disposables [simp]:
  "disposables (fst (awaitResponse h ts s)) = disposables s"
  by (induction ts arbitrary: s) (simp_all add: Let_def)

lemma executor_disposables:
  "disposables (promptUser_executor h \<lparr>picker = pk, disposables = [], response = Pending\<rparr>) =
     [\<lparr>event = OnDidAccept, disposed = False\<rparr>, \<lparr>event = OnDidHide, disposed = False\<rparr>]
     @ (case h of None \<Rightarrow> [] | Some f \<Rightarrow> [\<lparr>event = OnDidTriggerButton, disposed = False\<rparr>])"
  by (cases h) (simp_all add: promptUser_executor_def subscribe_def)

lemma executor_response [simp]:
  "response (promptUser_executor h \<lparr>picker = pk, disposables = [], response = Pending\<rparr>) = Pending"
  by (cases h) (simp_all add: promptUser_executor_def)

lemma executor_picker [simp]:
  "picker (promptUser_executor h \<lparr>picker = pk, disposables = [], response = Pending\<rparr>)
     = showQuickPick pk"
  by (cases h) (simp_all add: promptUser_executor_def)

lemma executor_listening:
  "listening OnDidAccept
     (disposables (promptUser_executor h \<lparr>picker = pk, disposables = [], response = Pending\<rparr>))"
  "listening OnDidHide
     (disposables (promptUser_executor h \<lparr>picker = pk, disposables = [], response = Pending\<rparr>))"
  by (simp_all add: executor_disposables listening_def)

lemma promptUser_result:
  "result (promptUser pk h turns) =
     (case response (fst (awaitResponse h turns
         (promptUser_executor h \<lparr>picker = pk, disposables = [], response = Pending\<rparr>))) of
        Pending \<Rightarrow> None | Fulfilled v \<Rightarrow> Some (Inr v) | Rejected e \<Rightarrow> Some (Inl e))"
  by (simp add: promptUser_def Let_def split: prod.splits Promise.splits)

lemma awaitResponse_first_turn:
  "response (promptTurn h t s) \<noteq> Pending \<Longrightarrow>
     awaitResponse h (t # ts) s = (promptTurn h t s, ts)"
  by (simp add: Let_def)

lemma selected_showQuickPick [simp]: "selectedItems (showQuickPick p) = selectedItems p"
  by (simp add: showQuickPick_def)

lemmas eval_defs = promptUser_def promptUser_executor_def subscribe_def listening_def
  window_createQuickPick_def showQuickPick_def hideQuickPick_def dispose_def promptTurn_def
  Let_def resolve_def reject_def

lemma fold_settle_Pending:
  "promiseOutcome (fold settle cs Pending) =
     (case cs of [] \<Rightarrow> None | c # cs' \<Rightarrow> Some (callOutcome c))"
proof (cases cs)
  case Nil
  then show ?thesis by simp
next
  case (Cons c cs')
  then show ?thesis by (cases c) (simp_all add: fold_settle_settled)
qed

lemma fold_settle_Nil_Pending: "cs \<noteq> [] \<Longrightarrow> fold settle cs Pending \<noteq> Pending"
proof (cases cs)
  case Nil
  assume "cs \<noteq> []"
  with Nil show ?thesis by simp
next
  case (Cons c cs')
  then show ?thesis by (cases c) (simp_all add: fold_settle_settled)
qed

lemma fold_fire_outcome:
  assumes "response s = Pending"
    and "listening OnDidAccept (disposables s)" and "listening OnDidHide (disposables s)"
    and "h \<noteq> None \<longrightarrow> listening OnDidTriggerButton (disposables s)"
  shows "promiseOutcome (response (fold (fire h) evs s))
           = firstOutcome h (selectedItems (picker s)) evs"
  using assms
proof (induction evs arbitrary: s)
  case Nil
  then show ?case by simp
next
  case (Cons e evs)
  show ?case
  proof (cases e)
    case Accept
    with Cons.prems show ?thesis by (simp add: fold_fire_settled)
  next
    case Hide
    with Cons.prems show ?thesis by (simp add: fold_fire_settled Let_def)
  next
    case (ChangeSelection xs)
    with Cons.IH [of "fire h e s"] Cons.prems show ?thesis by simp
  next
    case (TriggerButton btn)
    show ?thesis
    proof (cases h)
      case None
      with TriggerButton Cons.IH [of s] Cons.prems show ?thesis by simp
    next
      case (Some f)
      show ?thesis
      proof (cases "f btn")
        case Nil
        with Some TriggerButton Cons.IH [of "fire h e s"] Cons.prems show ?thesis by simp
      next
        case (Cons c cs)
        let ?s' = "fire h e s"
        from Cons Some TriggerButton Cons.prems
        have r: "response ?s' = fold settle (c # cs) Pending" by simp
        then have np: "response ?s' \<noteq> Pending"
          using fold_settle_Nil_Pending [of "c # cs"] by simp
        have "promiseOutcome (response ?s') = Some (callOutcome c)"
          using r fold_settle_Pending [of "c # cs"] by simp
        with np Cons Some TriggerButton show ?thesis
          by (simp add: fold_fire_settled del: fire.simps)
      qed
    qed
  qed
qed

lemma selected_hideQuickPick [simp]: "selectedItems (hideQuickPick p) = selectedItems p"
  by (simp add: hideQuickPick_def)

lemma fire_selection:
  "selectedItems (picker (fire h e s)) = currentSelection (selectedItems (picker s)) [e]"
  by (cases e) (simp_all add: Let_def split: option.split)

lemma currentSelection_Cons:
  "currentSelection sel (e # evs) = currentSelection (currentSelection sel [e]) evs"
  by (cases e) simp_all

lemma fold_fire_selection:
  "selectedItems (picker (fold (fire h) evs s)) = currentSelection (selectedItems (picker s)) evs"
proof (induction evs arbitrary: s)
  case Nil
  then show ?case by simp
next
  case (Cons e evs)
  then show ?case
    using currentSelection_Cons [of "selectedItems (picker s)" e evs]
    by (simp add: fire_selection del: fire.simps)
qed

lemma firstOutcome_append:
  "firstOutcome h sel (evs1 @ evs2) =
     (case firstOutcome h sel evs1 of
        Some r \<Rightarrow> Some r
      | None \<Rightarrow> firstOutcome h (currentSelection sel evs1) evs2)"
proof (induction evs1 arbitrary: sel)
  case Nil
  then show ?case by simp
next
  case (Cons e evs1)
  show ?case
  proof (cases e)
    case (TriggerButton btn)
    show ?thesis
    proof (cases h)
      case None
      with TriggerButton Cons.IH [of sel] show ?thesis by (simp split: option.split)
    next
      case (Some f)
      with TriggerButton Cons.IH [of sel] show ?thesis
        by (cases "f btn") (simp_all split: option.split)
    qed
  qed (simp_all add: Cons.IH split: option.split)
qed

lemma firstOutcome_quiet:
  "list_all (quietEvent h) pre \<Longrightarrow>
     firstOutcome h sel (pre @ evs) = firstOutcome h (currentSelection sel pre) evs"
proof (induction pre arbitrary: sel)
  case Nil
  then show ?case by simp
next
  case (Cons e pre)
  then show ?case
    by (cases e) (simp_all split: option.splits)
qed

lemma awaitResponse_outcome:
  assumes "response s = Pending"
    and "listening OnDidAccept (disposables s)" and "listening OnDidHide (disposables s)"
    and "h \<noteq> None \<longrightarrow> listening OnDidTriggerButton (disposables s)"
  shows "promiseOutcome (response (fst (awaitResponse h turns s)))
           = firstOutcome h (selectedItems (picker s)) (sessionEvents turns)"
  using assms
proof (induction turns arbitrary: s)
  case Nil
  then show ?case by (simp add: sessionEvents_def)
next
  case (Cons t ts)
  show ?case
  proof (cases t)
    case (WidgetEvents evs)
    let ?s' = "fold (fire h) evs s"
    have o: "promiseOutcome (response ?s') = firstOutcome h (selectedItems (picker s)) evs"
      using Cons.prems by (rule fold_fire_outcome)
    have se: "sessionEvents (WidgetEvents evs # ts) = evs @ sessionEvents ts"
      by (simp add: sessionEvents_def)
    show ?thesis
    proof (cases "response ?s' = Pending")
      case True
      with o have n: "firstOutcome h (selectedItems (picker s)) evs = None" by simp
      have "promiseOutcome (response (fst (awaitResponse h ts ?s')))
           = firstOutcome h (selectedItems (picker ?s')) (sessionEvents ts)"
        using True Cons.prems by (intro Cons.IH) simp_all
      with True WidgetEvents n show ?thesis
        by (simp add: se firstOutcome_append fold_fire_selection promptTurn_def Let_def)
    next
      case False
      with o [symmetric] have "firstOutcome h (selectedItems (picker s)) evs \<noteq> None"
        by (cases "response ?s'") simp_all
      then obtain r where "firstOutcome h (selectedItems (picker s)) evs = Some r"
        by blast
      with False WidgetEvents o show ?thesis
        by (simp add: se firstOutcome_append promptTurn_def Let_def)
    qed
  next
    case PopulatorResolved
    with Cons.IH [of s] Cons.prems show ?thesis
      by (simp add: sessionEvents_def promptTurn_def Let_def)
  next
    case (PopulatorRejected e)
    with Cons.IH [of s] Cons.prems show ?thesis
      by (simp add: sessionEvents_def promptTurn_def Let_def)
  qed
qed

lemma executor_listening_button:
  "h \<noteq> None \<longrightarrow> listening OnDidTriggerButton
     (disposables (promptUser_executor h \<lparr>picker = pk, disposables = [], response = Pending\<rparr>))"
  by (cases h) (simp_all add: executor_disposables listening_def)

lemma promptUser_result_outcome:
  "result (promptUser pk h turns) = firstOutcome h (selectedItems pk) (sessionEvents turns)"
proof -
  let ?s0 = "promptUser_executor h \<lparr>picker = pk, disposables = [], response = Pending\<rparr>"
  have "promiseOutcome (response (fst (awaitResponse h turns ?s0)))
           = firstOutcome h (selectedItems (picker ?s0)) (sessionEvents turns)"
    by (intro awaitResponse_outcome executor_listening executor_listening_button) simp
  moreover have "result (promptUser pk h turns)
      = promiseOutcome (response (fst (awaitResponse h turns ?s0)))"
    by (cases "response (fst (awaitResponse h turns ?s0))") (simp_all add: promptUser_result)
  ultimately show ?thesis by simp
qed

text \<open>
  C3.  In every prompt session the first settling event decides, in whatever task it
  fires: the value \<open>promptUser\<close> returns is the outcome of the first settling event
  of the whole session.  When that event is an accept, the prompt resolves to the
  selection as it is at that moment (the empty selection included); when it is a
  hide, to \<open>undefined\<close>.  Nothing that fires afterwards (\<open>post\<close>), an accept after a
  hide or a hide after an accept included, changes the one value returned.
\<close>

theorem promptUser_first_event_decides:
  "result (promptUser pk h turns) = firstOutcome h (selectedItems pk) (sessionEvents turns)
   \<and> (sessionEvents turns = pre @ Accept # post \<and> list_all (quietEvent h) pre \<longrightarrow>
        result (promptUser pk h turns)
          = Some (Inr (Some (currentSelection (selectedItems pk) pre))))
   \<and> (sessionEvents turns = pre @ Hide # post \<and> list_all (quietEvent h) pre \<longrightarrow>
        result (promptUser pk h turns) = Some (Inr None))"
  by (simp add: promptUser_result_outcome firstOutcome_quiet)

theorem promptUser_first_event_decides_witness:
  "result (promptUser (window_createQuickPick\<lparr>items := [''A'', ''B'', ''C'']\<rparr>)
       (Some (\<lambda>btn. if btn = Back then [CallResolve None] else []))
       [WidgetEvents [ChangeSelection [''A'', ''B''], TriggerButton HelpButton],
        PopulatorResolved, WidgetEvents [Accept, Hide], WidgetEvents [ChangeSelection [''C'']]])
     = Some (Inr (Some [''A'', ''B'']))
   \<and> result (promptUser (window_createQuickPick\<lparr>items := [''A'', ''B'', ''C'']\<rparr>)
       (Some (\<lambda>btn. if btn = Back then [CallResolve None] else []))
       [WidgetEvents [TriggerButton HelpButton], WidgetEvents [Accept], WidgetEvents [Hide]])
     = Some (Inr (Some []))
   \<and> result (promptUser (window_createQuickPick\<lparr>items := [''A'', ''B'', ''C'']\<rparr>)
       (Some (\<lambda>btn. if btn = Back then [CallResolve None] else []))
       [WidgetEvents [ChangeSelection [''A'']], WidgetEvents [Hide, Accept]])
     = Some (Inr None)"
  using
    promptUser_first_event_decides [where
      pk = "window_createQuickPick\<lparr>items := [''A'', ''B'', ''C'']\<rparr>"
      and h = "Some (\<lambda>btn. if btn = Back then [CallResolve None] else [])"
      and turns = "[WidgetEvents [ChangeSelection [''A'', ''B''], TriggerButton HelpButton],
        PopulatorResolved, WidgetEvents [Accept, Hide], WidgetEvents [ChangeSelection [''C'']]]"
      and pre = "[ChangeSelection [''A'', ''B''], TriggerButton HelpButton]"
      and post = "[Hide, ChangeSelection [''C'']]"]
    promptUser_first_event_decides [where
      pk = "window_createQuickPick\<lparr>items := [''A'', ''B'', ''C'']\<rparr>"
      and h = "Some (\<lambda>btn. if btn = Back then [CallResolve None] else [])"
      and turns = "[WidgetEvents [TriggerButton HelpButton], WidgetEvents [Accept],
        WidgetEvents [Hide]]"
      and pre = "[TriggerButton HelpButton]"
      and post = "[Hide]"]
    promptUser_first_event_decides [where
      pk = "window_createQuickPick\<lparr>items := [''A'', ''B'', ''C'']\<rparr>"
      and h = "Some (\<lambda>btn. if btn = Back then [CallResolve None] else [])"
      and turns = "[WidgetEvents [ChangeSelection [''A'']], WidgetEvents [Hide, Accept]]"
      and pre = "[ChangeSelection [''A'']]"
      and post = "[Accept]"]
  by (simp add: sessionEvents_def window_createQuickPick_def)

lemma promptUser_unfold:
  assumes "awaitResponse h turns
      (promptUser_executor h \<lparr>picker = pk, disposables = [], response = Pending\<rparr>) = (s, rest)"
  shows "promptUser pk h turns =
     (case response s of
        Pending \<Rightarrow>
          \<lparr>result = None, pickerAfter = picker s, subscriptions = disposables s,
           remaining = rest\<rparr>
      | Fulfilled v \<Rightarrow>
          \<lparr>result = Some (Inr v), pickerAfter = hideQuickPick (picker s),
           subscriptions = map dispose (disposables s), remaining = rest\<rparr>
      | Rejected e \<Rightarrow>
          \<lparr>result = Some (Inl e), pickerAfter = hideQuickPick (picker s),
           subscriptions = map dispose (disposables s), remaining = rest\<rparr>)"
  using assms by (simp add: promptUser_def)

text \<open>
  C4.  Whenever the promise settles, by the accept listener, the hide listener or the
  caller's button handler resolving or rejecting it, every subscription registered
  by the call has been disposed and the widget is hidden when the call returns or
  throws.
\<close>

theorem promptUser_settled_releases:
  assumes "result (promptUser pk h turns) \<noteq> None"
  shows "(\<forall>d \<in> set (subscriptions (promptUser pk h turns)). disposed d)
       \<and> map event (subscriptions (promptUser pk h turns))
           = [OnDidAccept, OnDidHide] @ (case h of None \<Rightarrow> [] | Some f \<Rightarrow> [OnDidTriggerButton])
       \<and> \<not> visible (pickerAfter (promptUser pk h turns))"
proof -
  let ?s0 = "promptUser_executor h \<lparr>picker = pk, disposables = [], response = Pending\<rparr>"
  obtain s rest where aw: "awaitResponse h turns ?s0 = (s, rest)"
    by (cases "awaitResponse h turns ?s0")
  have ds: "disposables s = disposables ?s0"
    using awaitResponse_disposables [of h turns ?s0] aw by simp
  note u = promptUser_unfold [OF aw]
  from assms u have settled: "response s \<noteq> Pending"
    by (cases "response s") simp_all
  have subs: "subscriptions (promptUser pk h turns) = map dispose (disposables ?s0)"
    using settled u ds by (cases "response s") simp_all
  have pa: "pickerAfter (promptUser pk h turns) = hideQuickPick (picker s)"
    using settled u by (cases "response s") simp_all
  show ?thesis
    unfolding subs pa executor_disposables
    by (cases h) (simp_all add: dispose_def hideQuickPick_def)
qed

theorem promptUser_settled_releases_witness:
  "result (promptUser (window_createQuickPick\<lparr>items := [''A'', ''B'']\<rparr>)
       (Some (\<lambda>btn. if btn = Back then [CallReject ''back''] else []))
       [WidgetEvents [TriggerButton HelpButton], WidgetEvents [TriggerButton Back]])
     = Some (Inl ''back'')
   \<and> subscriptions (promptUser (window_createQuickPick\<lparr>items := [''A'', ''B'']\<rparr>)
       (Some (\<lambda>btn. if btn = Back then [CallReject ''back''] else []))
       [WidgetEvents [TriggerButton HelpButton], WidgetEvents [TriggerButton Back]])
     = [\<lparr>event = OnDidAccept, disposed = True\<rparr>, \<lparr>event = OnDidHide, disposed = True\<rparr>,
        \<lparr>event = OnDidTriggerButton, disposed = True\<rparr>]
   \<and> \<not> visible (pickerAfter (promptUser (window_createQuickPick\<lparr>items := [''A'', ''B'']\<rparr>)
       (Some (\<lambda>btn. if btn = Back then [CallReject ''back''] else []))
       [WidgetEvents [TriggerButton HelpButton], WidgetEvents [TriggerButton Back]]))"
proof -
  let ?r = "promptUser (window_createQuickPick\<lparr>items := [''A'', ''B'']\<rparr>)
       (Some (\<lambda>btn. if btn = Back then [CallReject ''back''] else []))
       [WidgetEvents [TriggerButton HelpButton], WidgetEvents [TriggerButton Back]]"
  have res: "result ?r = Some (Inl ''back'')"
    by (simp add: eval_defs)
  then have h: "result ?r \<noteq> None" by simp
  have subs: "subscriptions ?r
     = [\<lparr>event = OnDidAccept, disposed = True\<rparr>, \<lparr>event = OnDidHide, disposed = True\<rparr>,
        \<lparr>event = OnDidTriggerButton, disposed = True\<rparr>]"
    by (simp add: eval_defs)
  show ?thesis
    using res subs promptUser_settled_releases [OF h] by simp
qed

subsection \<open>promptUserWithBusyMessage\<close>

lemma busyFire_disposables [simp]: "busyDisposables (busyFire e s) = busyDisposables s"
  by (cases e) (simp_all add: Let_def)

lemma busyFire_populator [simp]:
  "populatorSettled (busyFire e s) = populatorSettled s"
  "unhandledRejections (busyFire e s) = unhandledRejections s"
  by (cases e; simp add: Let_def)+

lemma fold_busyFire_frame [simp]:
  "busyDisposables (fold busyFire evs s) = busyDisposables s"
  "populatorSettled (fold busyFire evs s) = populatorSettled s"
  "unhandledRejections (fold busyFire evs s) = unhandledRejections s"
  by (induction evs arbitrary: s) simp_all

lemma busyTurn_disposables [simp]: "busyDisposables (busyTurn t s) = busyDisposables s"
  by (cases t) simp_all

lemma awaitDidComplete_disposables [simp]:
  "busyDisposables (fst (awaitDidComplete ts s)) = busyDisposables s"
  by (induction ts arbitrary: s) (simp_all add: Let_def)

lemma busyFire_settled:
  "didComplete s \<noteq> Pending \<Longrightarrow> didComplete (busyFire e s) = didComplete s"
  by (cases e) (simp_all add: Let_def)

lemma fold_busyFire_settled:
  "didComplete s \<noteq> Pending \<Longrightarrow> didComplete (fold busyFire evs s) = didComplete s"
  by (induction evs arbitrary: s) (simp_all add: busyFire_settled)

lemma busyFire_not_completed:
  "didComplete s \<noteq> Fulfilled True \<Longrightarrow> didComplete s \<noteq> Rejected e' \<Longrightarrow>
     didComplete (busyFire e s) \<noteq> Fulfilled True \<and> didComplete (busyFire e s) \<noteq> Rejected e'"
  by (cases e; cases "didComplete s") (simp_all add: Let_def)

lemma busyFire_notCompleted: "notCompleted s \<Longrightarrow> notCompleted (busyFire e s)"
  by (cases e) (auto simp add: notCompleted_def Let_def)

lemma fold_busyFire_notCompleted: "notCompleted s \<Longrightarrow> notCompleted (fold busyFire evs s)"
  by (induction evs arbitrary: s) (simp_all add: busyFire_notCompleted)

lemma fold_busyFire_hide:
  "notCompleted s \<Longrightarrow> listening OnDidHide (busyDisposables s) \<Longrightarrow> Hide \<in> set evs \<Longrightarrow>
     didComplete (fold busyFire evs s) = Fulfilled False"
proof (induction evs arbitrary: s)
  case Nil
  then show ?case by simp
next
  case (Cons e evs)
  show ?case
  proof (cases "e = Hide")
    case True
    with Cons.prems have "didComplete (busyFire e s) = Fulfilled False"
      by (auto simp add: notCompleted_def Let_def)
    then show ?thesis by (simp add: fold_busyFire_settled)
  next
    case False
    with Cons.prems have "Hide \<in> set evs" by simp
    with Cons.IH [of "busyFire e s"] Cons.prems show ?thesis
      by (simp add: busyFire_notCompleted)
  qed
qed

lemma fold_busyFire_no_hide:
  "Hide \<notin> set evs \<Longrightarrow> didComplete (fold busyFire evs s) = didComplete s"
proof (induction evs arbitrary: s)
  case Nil
  then show ?case by simp
next
  case (Cons e evs)
  then have "didComplete (busyFire e s) = didComplete s"
    by (cases e) simp_all
  with Cons show ?case by simp
qed

lemma busyTurn_notCompleted:
  "notCompleted s \<Longrightarrow> t \<noteq> PopulatorResolved \<Longrightarrow> notCompleted (busyTurn t s)"
  by (cases t) (simp_all add: fold_busyFire_notCompleted, simp add: notCompleted_def)

lemma awaitDidComplete_hide_first:
  assumes "notCompleted s" and "listening OnDidHide (busyDisposables s)"
    and "\<forall>t \<in> set ts1. t \<noteq> PopulatorResolved" and "Hide \<in> set evs"
  shows "didComplete (fst (awaitDidComplete (ts1 @ WidgetEvents evs # ts2) s)) = Fulfilled False"
  using assms
proof (induction ts1 arbitrary: s)
  case Nil
  then show ?case by (simp add: Let_def fold_busyFire_hide)
next
  case (Cons t ts1)
  then have nc: "notCompleted (busyTurn t s)"
    by (simp add: busyTurn_notCompleted)
  show ?case
  proof (cases "didComplete (busyTurn t s) = Pending")
    case True
    with Cons.IH [of "busyTurn t s"] Cons.prems nc show ?thesis
      by (simp add: Let_def)
  next
    case False
    with nc show ?thesis by (simp add: Let_def notCompleted_def)
  qed
qed

lemma busy_executor_facts:
  "didComplete (busy_executor \<lparr>busyPicker = pk, busyDisposables = [], didComplete = Pending,
      populatorSettled = False, unhandledRejections = []\<rparr>) = Pending"
  "busyDisposables (busy_executor \<lparr>busyPicker = pk, busyDisposables = [], didComplete = Pending,
      populatorSettled = False, unhandledRejections = []\<rparr>) = [\<lparr>event = OnDidHide, disposed = False\<rparr>]"
  "populatorSettled (busy_executor \<lparr>busyPicker = pk, busyDisposables = [], didComplete = Pending,
      populatorSettled = False, unhandledRejections = []\<rparr>) = False"
  "unhandledRejections (busy_executor \<lparr>busyPicker = pk, busyDisposables = [], didComplete = Pending,
      populatorSettled = False, unhandledRejections = []\<rparr>) = []"
  by (simp_all add: busy_executor_def subscribe_def)

lemma busy_unfold:
  assumes "awaitDidComplete turns (busy_executor \<lparr>busyPicker = pk, busyDisposables = [],
      didComplete = Pending, populatorSettled = False, unhandledRejections = []\<rparr>) = (s, rest)"
  shows "promptUserWithBusyMessage pk h turns =
     (case didComplete s of
           Pending \<Rightarrow>
             \<lparr>busyResult = None, busyPickerAfter = busyPicker s,
              busySubscriptions = busyDisposables s, promptPhase = None,
              unhandled = unhandledRejections s\<rparr>
         | Fulfilled didFinish \<Rightarrow>
             if didFinish
             then (let r = promptUser (makeQuickPickNotBusy (busyPicker s)) h rest
                   in \<lparr>busyResult = result r, busyPickerAfter = pickerAfter r,
                       busySubscriptions = busyDisposables s, promptPhase = Some r,
                       unhandled = unhandledRejections s\<rparr>)
             else \<lparr>busyResult = Some (Inr None), busyPickerAfter = busyPicker s,
                   busySubscriptions = map dispose (busyDisposables s), promptPhase = None,
                   unhandled = unhandledRejections s\<rparr>
         | Rejected e \<Rightarrow>
             \<lparr>busyResult = Some (Inl e), busyPickerAfter = busyPicker s,
              busySubscriptions = busyDisposables s, promptPhase = None,
              unhandled = unhandledRejections s\<rparr>)"
  using assms by (simp add: promptUserWithBusyMessage_def)

text \<open>
  C5.  A hide event that fires before the population task has resolved makes the call
  return \<open>undefined\<close>: \<open>promptUser\<close> is never called, the hide subscription is
  disposed, and whatever the population task does later (\<open>ts2\<close>) has no effect.
\<close>

theorem busy_hide_before_population:
  assumes "\<forall>t \<in> set ts1. t \<noteq> PopulatorResolved" and "Hide \<in> set evs"
  shows "busyResult (promptUserWithBusyMessage pk h (ts1 @ WidgetEvents evs # ts2))
           = Some (Inr None)
       \<and> promptPhase (promptUserWithBusyMessage pk h (ts1 @ WidgetEvents evs # ts2)) = None
       \<and> busySubscriptions (promptUserWithBusyMessage pk h (ts1 @ WidgetEvents evs # ts2))
           = [\<lparr>event = OnDidHide, disposed = True\<rparr>]"
proof -
  let ?s0 = "busy_executor \<lparr>busyPicker = pk, busyDisposables = [], didComplete = Pending,
      populatorSettled = False, unhandledRejections = []\<rparr>"
  obtain s rest where aw: "awaitDidComplete (ts1 @ WidgetEvents evs # ts2) ?s0 = (s, rest)"
    by (cases "awaitDidComplete (ts1 @ WidgetEvents evs # ts2) ?s0")
  have "didComplete (fst (awaitDidComplete (ts1 @ WidgetEvents evs # ts2) ?s0)) = Fulfilled False"
    using assms
    by (intro awaitDidComplete_hide_first)
       (simp_all add: notCompleted_def busy_executor_facts listening_def)
  with aw have dc: "didComplete s = Fulfilled False" by simp
  have ds: "busyDisposables s = [\<lparr>event = OnDidHide, disposed = False\<rparr>]"
    using awaitDidComplete_disposables [of "ts1 @ WidgetEvents evs # ts2" ?s0] aw
    by (simp add: busy_executor_facts)
  show ?thesis
    by (simp add: busy_unfold [OF aw] dc ds dispose_def)
qed

theorem busy_hide_before_population_witness:
  "busyResult (promptUserWithBusyMessage (window_createQuickPick :: string QuickPick) None
        ([WidgetEvents [ChangeSelection [''A'']], PopulatorRejected ''slow'']
         @ WidgetEvents [Hide] # [PopulatorResolved, WidgetEvents [Accept]]))
       = Some (Inr None)
   \<and> promptPhase (promptUserWithBusyMessage (window_createQuickPick :: string QuickPick) None
        ([WidgetEvents [ChangeSelection [''A'']], PopulatorRejected ''slow'']
         @ WidgetEvents [Hide] # [PopulatorResolved, WidgetEvents [Accept]]))
       = None"
proof -
  have h1: "\<forall>t \<in> set [WidgetEvents [ChangeSelection [''A'']], PopulatorRejected ''slow''].
       t \<noteq> PopulatorResolved"
    by simp
  have h2: "Hide \<in> set [Hide :: string PickerEvent]" by simp
  show ?thesis
    using h1 h2 busy_hide_before_population [OF h1 h2,
      of "window_createQuickPick :: string QuickPick" None "[PopulatorResolved, WidgetEvents [Accept]]"]
    by simp
qed

lemma awaitDidComplete_after_rejection:
  assumes "listening OnDidHide (busyDisposables s)" and "populatorSettled s"
    and "didComplete s = Pending"
  shows "unhandledRejections (fst (awaitDidComplete ts s)) = unhandledRejections s
       \<and> didComplete (fst (awaitDidComplete ts s))
           = (if \<exists>t \<in> set ts. hidesWidget t then Fulfilled False else Pending)"
  using assms
proof (induction ts arbitrary: s)
  case Nil
  then show ?case by simp
next
  case (Cons t ts)
  show ?case
  proof (cases t)
    case (WidgetEvents evs)
    show ?thesis
    proof (cases "Hide \<in> set evs")
      case True
      with Cons.prems have "didComplete (fold busyFire evs s) = Fulfilled False"
        by (simp add: fold_busyFire_hide notCompleted_def)
      with WidgetEvents True show ?thesis by (simp add: Let_def)
    next
      case False
      then have "didComplete (fold busyFire evs s) = didComplete s"
        by (rule fold_busyFire_no_hide)
      with Cons.IH [of "fold busyFire evs s"] Cons.prems WidgetEvents False show ?thesis
        by (simp add: Let_def)
    qed
  next
    case PopulatorResolved
    with Cons.IH [of s] Cons.prems show ?thesis by (simp add: Let_def)
  next
    case (PopulatorRejected e')
    with Cons.IH [of s] Cons.prems show ?thesis by (simp add: Let_def)
  qed
qed

lemma awaitDidComplete_rejection:
  assumes "listening OnDidHide (busyDisposables s)" and "\<not> populatorSettled s"
    and "didComplete s = Pending" and "unhandledRejections s = []"
    and "\<forall>t \<in> set ts1. \<not> hidesWidget t \<and> \<not> populatorTurn t"
  shows "unhandledRejections (fst (awaitDidComplete (ts1 @ PopulatorRejected e # ts2) s)) = [e]
       \<and> didComplete (fst (awaitDidComplete (ts1 @ PopulatorRejected e # ts2) s))
           = (if \<exists>t \<in> set ts2. hidesWidget t then Fulfilled False else Pending)"
  using assms
proof (induction ts1 arbitrary: s)
  case Nil
  let ?s = "s\<lparr>populatorSettled := True, unhandledRejections := unhandledRejections s @ [e]\<rparr>"
  have "unhandledRejections (fst (awaitDidComplete ts2 ?s)) = unhandledRejections ?s
       \<and> didComplete (fst (awaitDidComplete ts2 ?s))
           = (if \<exists>t \<in> set ts2. hidesWidget t then Fulfilled False else Pending)"
    using Nil.prems by (intro awaitDidComplete_after_rejection) simp_all
  with Nil.prems show ?case by (simp add: Let_def)
next
  case (Cons t ts1)
  from Cons.prems obtain evs where t: "t = WidgetEvents evs" and nh: "Hide \<notin> set evs"
    by (cases t) simp_all
  from nh have "didComplete (fold busyFire evs s) = didComplete s"
    by (rule fold_busyFire_no_hide)
  with Cons.IH [of "fold busyFire evs s"] Cons.prems t show ?case
    by (simp add: Let_def)
qed

text \<open>
  C6 as stated fails: when the population task rejects, the call does not throw the
  reason.  With the task rejecting and the widget hidden afterwards the call returns
  \<open>undefined\<close>; with the task rejecting and nothing else it never returns.
\<close>

theorem busy_rejection_counterexample:
  "busyResult (promptUserWithBusyMessage (window_createQuickPick :: string QuickPick) None
       [PopulatorRejected ''listing failed'', WidgetEvents [Hide]]) = Some (Inr None)
   \<and> busyResult (promptUserWithBusyMessage (window_createQuickPick :: string QuickPick) None
       [PopulatorRejected ''listing failed'']) = None"
  by (simp add: promptUserWithBusyMessage_def busy_executor_def subscribe_def listening_def
        window_createQuickPick_def makeQuickPickBusy_def showQuickPick_def hideQuickPick_def
        dispose_def Let_def)

text \<open>
  C6, amended.  When the population task rejects before any hide event, the reason
  is raised inside the \<open>async\<close> executor only and nothing observes it; the prompt
  phase is never started; the call stays pending until a hide event fires and then
  returns \<open>undefined\<close>.
\<close>

theorem busy_rejection_not_propagated:
  assumes "\<forall>t \<in> set ts1. \<not> hidesWidget t \<and> \<not> populatorTurn t"
  shows "busyResult (promptUserWithBusyMessage pk h (ts1 @ PopulatorRejected e # ts2))
           = (if \<exists>t \<in> set ts2. hidesWidget t then Some (Inr None) else None)
       \<and> promptPhase (promptUserWithBusyMessage pk h (ts1 @ PopulatorRejected e # ts2)) = None
       \<and> unhandled (promptUserWithBusyMessage pk h (ts1 @ PopulatorRejected e # ts2)) = [e]"
proof -
  let ?s0 = "busy_executor \<lparr>busyPicker = pk, busyDisposables = [], didComplete = Pending,
      populatorSettled = False, unhandledRejections = []\<rparr>"
  let ?ts = "ts1 @ PopulatorRejected e # ts2"
  obtain s rest where aw: "awaitDidComplete ?ts ?s0 = (s, rest)"
    by (cases "awaitDidComplete ?ts ?s0")
  have "unhandledRejections (fst (awaitDidComplete ?ts ?s0)) = [e]
       \<and> didComplete (fst (awaitDidComplete ?ts ?s0))
           = (if \<exists>t \<in> set ts2. hidesWidget t then Fulfilled False else Pending)"
    using assms
    by (intro awaitDidComplete_rejection) (simp_all add: busy_executor_facts listening_def)
  with aw have u: "unhandledRejections s = [e]"
    and dc: "didComplete s = (if \<exists>t \<in> set ts2. hidesWidget t then Fulfilled False else Pending)"
    by simp_all
  show ?thesis
    by (simp add: busy_unfold [OF aw] dc u)
qed

theorem busy_rejection_not_propagated_witness:
  "busyResult (promptUserWithBusyMessage (window_createQuickPick :: string QuickPick) None
        ([WidgetEvents [ChangeSelection [''A'']]] @ PopulatorRejected ''listing failed''
          # [WidgetEvents [Accept], WidgetEvents [Hide]]))
       = Some (Inr None)
   \<and> unhandled (promptUserWithBusyMessage (window_createQuickPick :: string QuickPick) None
        ([WidgetEvents [ChangeSelection [''A'']]] @ PopulatorRejected ''listing failed''
          # [WidgetEvents [Accept], WidgetEvents [Hide]]))
       = [''listing failed'']
   \<and> busyResult (promptUserWithBusyMessage (window_createQuickPick :: string QuickPick) None
        ([WidgetEvents [ChangeSelection [''A'']]] @ PopulatorRejected ''listing failed''
          # [WidgetEvents [Accept]]))
       = None"
proof -
  have h: "\<forall>t \<in> set [WidgetEvents [ChangeSelection [''A'']] :: string Turn].
       \<not> hidesWidget t \<and> \<not> populatorTurn t"
    by simp
  show ?thesis
    using h
      busy_rejection_not_propagated [OF h, of "window_createQuickPick :: string QuickPick" None
        "''listing failed''" "[WidgetEvents [Accept], WidgetEvents [Hide]]"]
      busy_rejection_not_propagated [OF h, of "window_createQuickPick :: string QuickPick" None
        "''listing failed''" "[WidgetEvents [Accept]]"]
    by simp
qed

subsection \<open>promptUserForTemplate\<close>

lemma createQuickPick_items: "items (createQuickPick options (Some xs) btns) = xs"
  by (cases options; cases btns) (simp_all add: createQuickPick_def Let_def split: option.split)

lemma promptUserForTemplate_context:
  "contextAfter (promptUserForTemplate this currRuntime currLanguage turns) =
     (if currRuntime = ''python3.7'' \<or> currRuntime = ''python3.6''
      then this\<lparr>lambdaTemplatesHelloWorld := lambdaTemplates this\<rparr>
      else this)"
proof (cases "currRuntime = ''python3.7'' \<or> currRuntime = ''python3.6''")
  case True
  then show ?thesis
    unfolding promptUserForTemplate_def Let_def
    by (simp only: if_True split: option.split sum.split prod.split) simp
next
  case False
  then show ?thesis
    unfolding promptUserForTemplate_def Let_def
    by (simp only: if_False split: option.split sum.split prod.split) simp
qed

lemma promptUserForTemplate_offered:
  "map label (offered (promptUserForTemplate this currRuntime currLanguage turns)) =
     (if currRuntime = ''python3.7'' \<or> currRuntime = ''python3.6''
      then lambdaTemplates this
      else lambdaTemplatesHelloWorld this)"
proof (cases "currRuntime = ''python3.7'' \<or> currRuntime = ''python3.6''")
  case True
  then show ?thesis
    unfolding promptUserForTemplate_def Let_def createQuickPick_items
    by (simp only: if_True split: option.split sum.split prod.split) (simp add: comp_def)
next
  case False
  then show ?thesis
    unfolding promptUserForTemplate_def Let_def createQuickPick_items
    by (simp only: if_False split: option.split sum.split prod.split) (simp add: comp_def)
qed

lemma promptUserForTemplate_keeps_widened:
  "widened this \<Longrightarrow>
     contextAfter (promptUserForTemplate this currRuntime currLanguage turns) = this"
  by (simp add: promptUserForTemplate_context widened_def)

lemma templateCalls_widened: "widened this \<Longrightarrow> templateCalls this calls = this"
  by (induction calls arbitrary: this) (auto simp add: promptUserForTemplate_keeps_widened)

text \<open>
  C10.  A call of \<open>promptUserForTemplate\<close> with runtime \<open>python3.7\<close> or \<open>python3.6\<close>
  replaces \<open>lambdaTemplatesHelloWorld\<close> by \<open>lambdaTemplates\<close>.  The replacement stays
  through any number of further calls with any runtimes, and every later call offers
  the templates of \<open>lambdaTemplates\<close>.
\<close>

theorem promptUserForTemplate_python_widens:
  assumes "currRuntime = ''python3.7'' \<or> currRuntime = ''python3.6''"
  shows "lambdaTemplatesHelloWorld
           (contextAfter (promptUserForTemplate this currRuntime currLanguage turns))
           = lambdaTemplates this
       \<and> lambdaTemplatesHelloWorld
           (templateCalls
              (contextAfter (promptUserForTemplate this currRuntime currLanguage turns)) calls)
           = lambdaTemplates this
       \<and> map label (offered (promptUserForTemplate
           (templateCalls
              (contextAfter (promptUserForTemplate this currRuntime currLanguage turns)) calls)
           laterRuntime laterLanguage laterTurns))
           = lambdaTemplates this"
proof -
  let ?this1 = "contextAfter (promptUserForTemplate this currRuntime currLanguage turns)"
  have c: "?this1 = this\<lparr>lambdaTemplatesHelloWorld := lambdaTemplates this\<rparr>"
    using assms by (simp add: promptUserForTemplate_context)
  then have w: "widened ?this1" by (simp add: widened_def)
  have k: "templateCalls ?this1 calls = ?this1"
    using w by (rule templateCalls_widened)
  show ?thesis
    unfolding k promptUserForTemplate_offered
    by (simp add: c)
qed

theorem promptUserForTemplate_python_widens_witness:
  "map label (offered (promptUserForTemplate
        \<lparr>lambdaRuntimes = [''nodejs10.x'', ''python3.7''],
         lambdaTemplates = [''helloWorld'', ''eventBridge-schema-app''],
         lambdaTemplatesHelloWorld = [''helloWorld'']\<rparr>
        ''nodejs10.x'' None []))
       = [''helloWorld'']
   \<and> map label (offered (promptUserForTemplate
        (templateCalls
           (contextAfter (promptUserForTemplate
              \<lparr>lambdaRuntimes = [''nodejs10.x'', ''python3.7''],
               lambdaTemplates = [''helloWorld'', ''eventBridge-schema-app''],
               lambdaTemplatesHelloWorld = [''helloWorld'']\<rparr>
              ''python3.7'' None [WidgetEvents [TriggerButton Back]]))
           [])
        ''nodejs10.x'' None []))
       = [''helloWorld'', ''eventBridge-schema-app'']"
proof -
  have h: "''python3.7'' = ''python3.7'' \<or> ''python3.7'' = ''python3.6''" by simp
  have before: "map label (offered (promptUserForTemplate
        \<lparr>lambdaRuntimes = [''nodejs10.x'', ''python3.7''],
         lambdaTemplates = [''helloWorld'', ''eventBridge-schema-app''],
         lambdaTemplatesHelloWorld = [''helloWorld'']\<rparr>
        ''nodejs10.x'' None [])) = [''helloWorld'']"
    by (simp add: promptUserForTemplate_offered)
  show ?thesis
    using h before
      promptUserForTemplate_python_widens [OF h,
        of "\<lparr>lambdaRuntimes = [''nodejs10.x'', ''python3.7''],
             lambdaTemplates = [''helloWorld'', ''eventBridge-schema-app''],
             lambdaTemplatesHelloWorld = [''helloWorld'']\<rparr>"
           None "[WidgetEvents [TriggerButton Back]]" "[]" "''nodejs10.x''" None "[]"]
    by simp
qed

end
